theory Spec2Isabelle
  imports Complex_Main
begin

section \<open>Data model\<close>

text \<open>
  The client (\<^verbatim>\<open>frontend/src/App.jsx\<close>) works on the zone records served by the
  backend: \<^verbatim>\<open>{id, name, center: {lat, lng}, radius_m, playlist}\<close>. A field the code
  tests for presence (\<^verbatim>\<open>radius_m\<close>, \<^verbatim>\<open>playlist\<close>) is an option. JavaScript numbers are
  read as real numbers: rounding is not modelled, and a NaN is the value \<open>None\<close>.
\<close>

record center =
  lat :: real
  lng :: real

record zone =
  id :: int
  name :: string
  center :: center
  radius_m :: "real option"
  playlist :: "string list option"

text \<open>The \<^verbatim>\<open>coords\<close> object of a geolocation fix.\<close>

record coords =
  latitude :: real
  longitude :: real

text \<open>
  What the \<^verbatim>\<open>zones\<close> state variable can hold: \<^verbatim>\<open>setZones\<close> stores whatever JSON value
  the response body parsed to, an array of zones or a plain object such as the backend's
  error body.
\<close>

datatype js_value = JsArray "zone list" | JsObject "(string \<times> string) list"

datatype error = TypeError | SecurityError

section \<open>Zone resolver\<close>

definition toRad :: "real \<Rightarrow> real" where
  "toRad deg = (deg * pi) / 180"

text \<open>\<^verbatim>\<open>Math.sqrt\<close>: NaN below zero.\<close>

definition math_sqrt :: "real \<Rightarrow> real option" where
  "math_sqrt x = (if x < 0 then None else Some (sqrt x))"

text \<open>\<^verbatim>\<open>Math.atan2(y, x)\<close>, the angle of the point \<open>(x, y)\<close> (signed zeros apart).\<close>

definition math_atan2 :: "real \<Rightarrow> real \<Rightarrow> real" where
  "math_atan2 y x =
     (if 0 < x then arctan (y / x)
      else if x < 0 then (if 0 \<le> y then arctan (y / x) + pi else arctan (y / x) - pi)
      else if 0 < y then pi / 2
      else if y < 0 then - (pi / 2)
      else 0)"

definition distanceMeters :: "real \<Rightarrow> real \<Rightarrow> real \<Rightarrow> real \<Rightarrow> real option" where
  "distanceMeters lat1 lon1 lat2 lon2 =
     (let R = 6371000;
          dLat = toRad (lat2 - lat1);
          dLon = toRad (lon2 - lon1);
          a = (sin (dLat / 2))\<^sup>2 + cos (toRad lat1) * cos (toRad lat2) * (sin (dLon / 2))\<^sup>2
      in case math_sqrt a of
           None \<Rightarrow> None
         | Some sa \<Rightarrow>
             (case math_sqrt (1 - a) of
                None \<Rightarrow> None
              | Some sb \<Rightarrow> Some (R * 2 * math_atan2 sa sb)))"

text \<open>
  \<^verbatim>\<open>z.radius_m || 50\<close>: the right operand replaces every falsy left operand, an absent
  field and the number 0 alike.
\<close>

definition radius_or_default :: "zone \<Rightarrow> real" where
  "radius_or_default z =
     (case radius_m z of None \<Rightarrow> 50 | Some r \<Rightarrow> if r = 0 then 50 else r)"

text \<open>The test of the loop body, \<^verbatim>\<open>d <= (z.radius_m || 50)\<close>; a NaN compares false.\<close>

definition zone_matches :: "coords \<Rightarrow> zone \<Rightarrow> bool" where
  "zone_matches c z =
     (case distanceMeters (latitude c) (longitude c) (lat (center z)) (lng (center z)) of
        None \<Rightarrow> False
      | Some d \<Rightarrow> d \<le> radius_or_default z)"

text \<open>The \<^verbatim>\<open>for (const z of zones)\<close> loop over an array.\<close>

fun scanZones :: "zone list \<Rightarrow> coords \<Rightarrow> zone option" where
  "scanZones [] c = None"
| "scanZones (z # zs) c = (if zone_matches c z then Some z else scanZones zs c)"

text \<open>
  \<^verbatim>\<open>findZone(zones, coords)\<close>. The absent coordinate returns before \<^verbatim>\<open>zones\<close> is
  touched; \<^verbatim>\<open>for ... of\<close> over a plain object throws a TypeError (it is not iterable).
\<close>

fun findZone :: "js_value \<Rightarrow> coords option \<Rightarrow> error + zone option" where
  "findZone zones None = Inr None"
| "findZone (JsArray zs) (Some c) = Inr (scanZones zs c)"
| "findZone (JsObject kvs) (Some c) = Inl TypeError"

section \<open>Backend route and zone loading\<close>

text \<open>
  The backend's \<^verbatim>\<open>GET /api/zones\<close>. Its argument is what
  \<^verbatim>\<open>JSON.parse(fs.readFileSync(ZONES_PATH, 'utf8'))\<close> evaluates to, \<open>None\<close> when the read or the
  parse throws; \<^verbatim>\<open>res.json\<close> answers with status 200 unless a status was set.
\<close>

record http_response =
  status :: nat
  body :: js_value

definition zones_route :: "js_value option \<Rightarrow> http_response" where
  "zones_route file =
     (case file of
        Some zs \<Rightarrow> \<lparr>status = 200, body = zs\<rparr>
      | None \<Rightarrow> \<lparr>status = 500, body = JsObject [(''error'', ''Could not read zones'')]\<rparr>)"

text \<open>
  What \<^verbatim>\<open>fetch("/api/zones")\<close> can give the client: a rejected promise (no response at
  all), or a response with a status and a body. The body is given by the value
  \<^verbatim>\<open>r.json()\<close> parses it to, \<open>None\<close> when it is not JSON and the parse rejects.
\<close>

datatype fetch_result = NetworkFailure | Response nat "js_value option"

definition fetch_of :: "http_response \<Rightarrow> fetch_result" where
  "fetch_of r = Response (status r) (Some (body r))"

section \<open>Audio element and storage\<close>

text \<open>
  The \<^verbatim>\<open><audio>\<close> element: the attributes the code assigns, whether it is paused, and how
  often \<^verbatim>\<open>play()\<close> was called on it. The promise \<^verbatim>\<open>play()\<close> returns is settled by the
  platform; its outcome is an input of the model.
\<close>

record audio =
  src :: string
  muted :: bool
  currentTime :: real
  paused :: bool
  playCalls :: nat

datatype play_result = Resolved | Rejected

definition audio_play_call :: "audio \<Rightarrow> audio" where
  "audio_play_call a = a\<lparr>playCalls := Suc (playCalls a)\<rparr>"

definition audio_play_settle :: "play_result \<Rightarrow> audio \<Rightarrow> audio" where
  "audio_play_settle r a = (case r of Resolved \<Rightarrow> a\<lparr>paused := False\<rparr> | Rejected \<Rightarrow> a)"

definition audio_play :: "play_result \<Rightarrow> audio \<Rightarrow> audio" where
  "audio_play r a = audio_play_settle r (audio_play_call a)"

definition audio_pause :: "audio \<Rightarrow> audio" where
  "audio_pause a = a\<lparr>paused := True\<rparr>"

text \<open>
  \<^verbatim>\<open>localStorage\<close>: \<open>None\<close> when the browser denies storage, and then every access throws.
  The code wraps each access in \<^verbatim>\<open>try { ... } catch {}\<close>.
\<close>

type_synonym storage = "(string \<rightharpoonup> string) option"

definition getItem :: "storage \<Rightarrow> string \<Rightarrow> error + string option" where
  "getItem st k = (case st of None \<Rightarrow> Inl SecurityError | Some m \<Rightarrow> Inr (m k))"

definition setItem :: "storage \<Rightarrow> string \<Rightarrow> string \<Rightarrow> error + storage" where
  "setItem st k v = (case st of None \<Rightarrow> Inl SecurityError | Some m \<Rightarrow> Inr (Some (m(k \<mapsto> v))))"

definition removeItem :: "storage \<Rightarrow> string \<Rightarrow> error + storage" where
  "removeItem st k = (case st of None \<Rightarrow> Inl SecurityError | Some m \<Rightarrow> Inr (Some (m(k := None))))"

text \<open>
  The initialiser of the \<^verbatim>\<open>audioPrimed\<close> state: what a page load reads back from storage.
  The persisted unlock flag is set exactly when this is true.
\<close>

definition readPrimed :: "storage \<Rightarrow> bool" where
  "readPrimed st =
     (case getItem st ''audioPrimed'' of Inl e \<Rightarrow> False | Inr v \<Rightarrow> v = Some ''1'')"

text \<open>\<^verbatim>\<open>try { localStorage.setItem("audioPrimed", "1"); } catch {}\<close>\<close>

definition persistPrimed :: "storage \<Rightarrow> storage" where
  "persistPrimed st = (case setItem st ''audioPrimed'' ''1'' of Inl e \<Rightarrow> st | Inr st' \<Rightarrow> st')"

text \<open>\<^verbatim>\<open>try { localStorage.removeItem("audioPrimed"); } catch {}\<close>\<close>

definition clearPrimed :: "storage \<Rightarrow> storage" where
  "clearPrimed st = (case removeItem st ''audioPrimed'' of Inl e \<Rightarrow> st | Inr st' \<Rightarrow> st')"

section \<open>The component's state\<close>

text \<open>
  The state of \<^verbatim>\<open>App\<close>: its React state variables, the element behind \<^verbatim>\<open>audioRef\<close>
  (\<open>None\<close> while the ref is not attached), the browser's storage and console, and the two
  things the runtime holds for the unlock procedure: the \<^verbatim>\<open>onGesture\<close> listener installed
  on \<^verbatim>\<open>window\<close>, and the invocations of \<^verbatim>\<open>handleUserEnable\<close> suspended at an
  \<^verbatim>\<open>await a.play()\<close> of \<^verbatim>\<open>primeAudio\<close>.

  A handler is a closure of the render that created it: the \<^verbatim>\<open>primingInProgress\<close> that
  \<^verbatim>\<open>handleUserEnable\<close> tests and the \<^verbatim>\<open>zone\<close> that \<^verbatim>\<open>primeAudio\<close> reads are that
  render's values. The installed listener is therefore recorded with the values it
  captured.
\<close>

datatype phase = AwaitMutedPlay | AwaitAudiblePlay

record closure =
  capturedPriming :: bool
  capturedZone :: "zone option"

record app =
  zones :: js_value
  coords :: "coords option"
  zone :: "zone option"
  audioPrimed :: bool
  primingInProgress :: bool
  audioRef :: "audio option"
  localStorage :: storage
  console :: "string list"
  gestureListener :: "closure option"
  inflight :: "phase list"

text \<open>The handlers a render of the given state creates.\<close>

definition closureOf :: "app \<Rightarrow> closure" where
  "closureOf s = \<lparr>capturedPriming = primingInProgress s, capturedZone = zone s\<rparr>"

definition onAudio :: "(audio \<Rightarrow> audio) \<Rightarrow> app \<Rightarrow> app" where
  "onAudio f s = s\<lparr>audioRef := map_option f (audioRef s)\<rparr>"

definition logLine :: "string \<Rightarrow> app \<Rightarrow> app" where
  "logLine msg s = s\<lparr>console := console s @ [msg]\<rparr>"

text \<open>The first render: the \<^verbatim>\<open>useState\<close> initialisers.\<close>

definition mount :: "storage \<Rightarrow> audio option \<Rightarrow> app" where
  "mount st el =
     \<lparr>zones = JsArray [], coords = None, zone = None, audioPrimed = readPrimed st,
      primingInProgress = False, audioRef = el, localStorage = st, console = [],
      gestureListener = None, inflight = []\<rparr>"

text \<open>
  The effect that loads the zones:
  \<^verbatim>\<open>fetch("/api/zones").then((r) => r.json()).then(setZones).catch(log)\<close>.
  Neither \<^verbatim>\<open>r.ok\<close> nor \<^verbatim>\<open>r.status\<close> is read: every body that parses is stored.
\<close>

definition loadZones :: "fetch_result \<Rightarrow> app \<Rightarrow> app" where
  "loadZones f s =
     (case f of
        NetworkFailure \<Rightarrow> logLine ''Failed to load zones:'' s
      | Response st None \<Rightarrow> logLine ''Failed to load zones:'' s
      | Response st (Some v) \<Rightarrow> s\<lparr>zones := v\<rparr>)"

text \<open>
  The debug panel of the render, \<^verbatim>\<open>zones.map(z => ({id, name, center, radius_m}))\<close>: a
  plain object has no \<^verbatim>\<open>map\<close> method, so the call throws.
\<close>

definition zonesDebug :: "js_value \<Rightarrow> error + (int \<times> string \<times> center \<times> real option) list" where
  "zonesDebug v =
     (case v of
        JsArray zs \<Rightarrow> Inr (map (\<lambda>z. (id z, name z, center z, radius_m z)) zs)
      | JsObject kvs \<Rightarrow> Inl TypeError)"

section \<open>Automatic playback on zone change\<close>

text \<open>
  \<^verbatim>\<open>z.playlist && z.playlist[0]\<close> where it is truthy: the playlist is present, not empty,
  and its first entry is not the empty string.
\<close>

definition firstTrack :: "zone \<Rightarrow> string option" where
  "firstTrack z =
     (case playlist z of
        None \<Rightarrow> None
      | Some [] \<Rightarrow> None
      | Some (t # ts) \<Rightarrow> if t = [] then None else Some t)"

text \<open>
  The effect on \<^verbatim>\<open>[coords, zones, audioPrimed]\<close>. The argument is the outcome of the
  \<^verbatim>\<open>play()\<close> it may call. An exception of \<^verbatim>\<open>findZone\<close> leaves the effect. Every
  state variable the effect reads is one of its dependencies, so the values of its render
  are the current ones.
\<close>

definition zoneEffect :: "play_result \<Rightarrow> app \<Rightarrow> error + app" where
  "zoneEffect r s =
     (case findZone (zones s) (coords s) of
        Inl e \<Rightarrow> Inl e
      | Inr z \<Rightarrow>
          (let s1 = s\<lparr>zone := z\<rparr> in
           case z of
             None \<Rightarrow> Inr s1
           | Some zz \<Rightarrow>
               if audioRef s1 = None then Inr s1
               else
                 (let track = firstTrack zz;
                      s2 = (case track of None \<Rightarrow> s1 | Some t \<Rightarrow> onAudio (\<lambda>a. a\<lparr>src := t\<rparr>) s1)
                  in if audioPrimed s \<and> track \<noteq> None then
                       (case r of
                          Resolved \<Rightarrow> Inr (onAudio (audio_play Resolved) s2)
                        | Rejected \<Rightarrow>
                            Inr ((logLine ''Auto-play attempt failed after priming:''
                                   (onAudio (audio_play Rejected) s2))
                                 \<lparr>localStorage := clearPrimed (localStorage s2),
                                  audioPrimed := False\<rparr>))
                     else Inr s2)))"

section \<open>The unlock procedure\<close>

text \<open>
  The head of \<^verbatim>\<open>primeAudio\<close>, up to its first \<^verbatim>\<open>play()\<close>:
  \<^verbatim>\<open>track = (zone && zone.playlist && zone.playlist[0]) || a.src || ""\<close>,
  \<^verbatim>\<open>if (track) a.src = track\<close>, \<^verbatim>\<open>a.muted = true\<close>.
\<close>

definition primeTrack :: "zone option \<Rightarrow> audio \<Rightarrow> string" where
  "primeTrack z a =
     (case z of
        None \<Rightarrow> src a
      | Some zz \<Rightarrow> (case firstTrack zz of None \<Rightarrow> src a | Some t \<Rightarrow> t))"

definition primeSetup :: "zone option \<Rightarrow> audio \<Rightarrow> audio" where
  "primeSetup z a =
     (let track = primeTrack z a;
          a1 = (if track \<noteq> [] then a\<lparr>src := track\<rparr> else a)
      in a1\<lparr>muted := True\<rparr>)"

text \<open>After the muted play resolved: \<^verbatim>\<open>a.pause(); a.currentTime = 0; a.muted = false\<close>.\<close>

definition primeRewind :: "audio \<Rightarrow> audio" where
  "primeRewind a = (audio_pause a)\<lparr>currentTime := 0, muted := False\<rparr>"

text \<open>
  \<^verbatim>\<open>primeAudio\<close> run from its call to its return. The first argument is the \<^verbatim>\<open>zone\<close> of
  the closure, the next two are the outcomes of the muted and of the audible \<^verbatim>\<open>play()\<close>;
  the result is the state and the value returned.
\<close>

definition primeAudio :: "zone option \<Rightarrow> play_result \<Rightarrow> play_result \<Rightarrow> app \<Rightarrow> app \<times> bool" where
  "primeAudio z r1 r2 s =
     (if audioRef s = None then (s, False)
      else
        (let s1 = onAudio (primeSetup z) s in
         case r1 of
           Resolved \<Rightarrow>
             (let s2 = onAudio primeRewind (onAudio (audio_play Resolved) s1) in
              case r2 of
                Resolved \<Rightarrow> (onAudio (audio_play Resolved) s2, True)
              | Rejected \<Rightarrow>
                  (logLine ''audible play after priming failed:''
                     (onAudio (audio_play Rejected) s2), True))
         | Rejected \<Rightarrow>
             (onAudio (\<lambda>a. a\<lparr>muted := False\<rparr>)
                (logLine ''Priming muted play failed:'' (onAudio (audio_play Rejected) s1)),
              False)))"

text \<open>
  \<^verbatim>\<open>handleUserEnable\<close> after \<^verbatim>\<open>await primeAudio()\<close>: the flag is reset, and the outcome is
  stored.
\<close>

definition finishEnable :: "bool \<Rightarrow> app \<Rightarrow> app" where
  "finishEnable ok s =
     (let s1 = s\<lparr>primingInProgress := False\<rparr> in
      if ok then s1\<lparr>localStorage := persistPrimed (localStorage s1), audioPrimed := True\<rparr>
      else s1\<lparr>audioPrimed := False\<rparr>)"

text \<open>
  \<^verbatim>\<open>handleUserEnable\<close> run from its call to its end, with nothing else in between. The
  first argument is the closure that is invoked.
\<close>

definition handleUserEnable :: "closure \<Rightarrow> play_result \<Rightarrow> play_result \<Rightarrow> app \<Rightarrow> app" where
  "handleUserEnable c r1 r2 s =
     (if capturedPriming c then s
      else
        (let s1 = s\<lparr>primingInProgress := True\<rparr>;
             (s2, ok) = primeAudio (capturedZone c) r1 r2 s1
         in finishEnable ok s2))"

subsection \<open>The same procedure, one suspension at a time\<close>

text \<open>
  \<^verbatim>\<open>handleUserEnable\<close> is asynchronous: it runs to the first \<^verbatim>\<open>await a.play()\<close> of
  \<^verbatim>\<open>primeAudio\<close> and is resumed when that promise settles. \<open>beginEnable\<close> is the part that
  runs in the caller's turn; \<open>settlePlay\<close> resumes the oldest suspended invocation.
  Without an audio element \<^verbatim>\<open>primeAudio\<close> returns at once and no \<^verbatim>\<open>play()\<close> is awaited.
\<close>

definition beginEnable :: "closure \<Rightarrow> app \<Rightarrow> app" where
  "beginEnable c s =
     (if capturedPriming c then s
      else
        (let s1 = s\<lparr>primingInProgress := True\<rparr> in
         if audioRef s1 = None then finishEnable False s1
         else (onAudio audio_play_call (onAudio (primeSetup (capturedZone c)) s1))
                \<lparr>inflight := inflight s1 @ [AwaitMutedPlay]\<rparr>))"

definition settlePlay :: "play_result \<Rightarrow> app \<Rightarrow> app" where
  "settlePlay r s =
     (case inflight s of
        [] \<Rightarrow> s
      | AwaitMutedPlay # rest \<Rightarrow>
          (case r of
             Resolved \<Rightarrow>
               (onAudio audio_play_call
                  (onAudio primeRewind (onAudio (audio_play_settle Resolved) s)))
               \<lparr>inflight := AwaitAudiblePlay # rest\<rparr>
           | Rejected \<Rightarrow>
               finishEnable False
                 ((onAudio (\<lambda>a. a\<lparr>muted := False\<rparr>)
                     (logLine ''Priming muted play failed:''
                        (onAudio (audio_play_settle Rejected) s)))
                  \<lparr>inflight := rest\<rparr>))
      | AwaitAudiblePlay # rest \<Rightarrow>
          (case r of
             Resolved \<Rightarrow>
               finishEnable True ((onAudio (audio_play_settle Resolved) s)\<lparr>inflight := rest\<rparr>)
           | Rejected \<Rightarrow>
               finishEnable True
                 ((logLine ''audible play after priming failed:''
                     (onAudio (audio_play_settle Rejected) s))
                  \<lparr>inflight := rest\<rparr>)))"

subsection \<open>Who calls the procedure\<close>

text \<open>
  The effect on \<^verbatim>\<open>[audioPrimed, zone]\<close>. Its first argument is the state of the render
  that scheduled it: the \<^verbatim>\<open>onGesture\<close> it installs calls that render's
  \<^verbatim>\<open>handleUserEnable\<close>. The cleanup of the previous run removes the listener that was
  installed before. \<^verbatim>\<open>primingInProgress\<close> is not among the dependencies, so a change of it
  alone does not renew the listener.
\<close>

definition gestureEffect :: "app \<Rightarrow> app \<Rightarrow> app" where
  "gestureEffect rendered s =
     (if audioPrimed rendered then s\<lparr>gestureListener := None\<rparr>
      else s\<lparr>gestureListener := Some (closureOf rendered)\<rparr>)"

text \<open>
  A click, touch-start or key-down reaching \<^verbatim>\<open>window\<close>: the listener removes itself and
  calls the \<^verbatim>\<open>handleUserEnable\<close> it captured.
\<close>

definition onGesture :: "app \<Rightarrow> app" where
  "onGesture s =
     (case gestureListener s of
        None \<Rightarrow> s
      | Some c \<Rightarrow> beginEnable c (s\<lparr>gestureListener := None\<rparr>))"

text \<open>
  The button's \<^verbatim>\<open>onClick\<close>, the \<^verbatim>\<open>handleUserEnable\<close> of the render on screen. The
  argument is the state of that render; the banner, and the button in it, exist while
  \<^verbatim>\<open>audioPrimed\<close> is false, and a disabled button gets no click.
\<close>

definition onButtonClick :: "app \<Rightarrow> app \<Rightarrow> app" where
  "onButtonClick rendered s =
     (if audioPrimed rendered \<or> primingInProgress rendered then s
      else beginEnable (closureOf rendered) s)"

subsection \<open>Events, with every effect run before the next event\<close>

text \<open>
  One schedule of the component, the one in which React has rendered and run the effects of
  each event before the next event arrives. A tap is a gesture away from the button. A
  click on the button reaches the capturing listener on \<^verbatim>\<open>window\<close> first and the button's
  handler, of the render then on screen, second. The zone effect may run at any time. After
  each event the listener effect runs again if one of its dependencies changed.
\<close>

datatype event =
    Tap
  | ButtonClick
  | PlaySettled play_result
  | ZoneEffectRun play_result
  | PositionFix coords
  | ZonesFetched fetch_result

definition renewListener :: "app \<Rightarrow> app \<Rightarrow> app" where
  "renewListener before s =
     (if audioPrimed s \<noteq> audioPrimed before \<or> zone s \<noteq> zone before then gestureEffect s s
      else s)"

definition handle :: "event \<Rightarrow> app \<Rightarrow> error + app" where
  "handle e s =
     (case e of
        Tap \<Rightarrow> Inr (onGesture s)
      | ButtonClick \<Rightarrow> Inr (onButtonClick (onGesture s) (onGesture s))
      | PlaySettled r \<Rightarrow> Inr (settlePlay r s)
      | ZoneEffectRun r \<Rightarrow> zoneEffect r s
      | PositionFix c \<Rightarrow> Inr (s\<lparr>coords := Some c\<rparr>)
      | ZonesFetched f \<Rightarrow> Inr (loadZones f s))"

definition step :: "event \<Rightarrow> app \<Rightarrow> error + app" where
  "step e s = (case handle e s of Inl err \<Rightarrow> Inl err | Inr s' \<Rightarrow> Inr (renewListener s s'))"

text \<open>An exception in an effect unmounts the component: the run ends there.\<close>

fun run :: "event list \<Rightarrow> app \<Rightarrow> error + app" where
  "run [] s = Inr s"
| "run (e # es) s = (case step e s of Inl err \<Rightarrow> Inl err | Inr s' \<Rightarrow> run es s')"

text \<open>The component after its first render and that render's listener effect.\<close>

definition started :: "storage \<Rightarrow> audio option \<Rightarrow> app" where
  "started st el = gestureEffect (mount st el) (mount st el)"

text \<open>
  What that schedule keeps true: at most one invocation is suspended, and while one is, the
  flag is set and an installed listener has captured the set flag.
\<close>

definition oneAttempt :: "app \<Rightarrow> bool" where
  "oneAttempt s =
     (length (inflight s) \<le> 1
      \<and> (inflight s = []
         \<or> (primingInProgress s
            \<and> (case gestureListener s of None \<Rightarrow> True | Some c \<Rightarrow> capturedPriming c))))"

section \<open>The resolver as the specification words it\<close>



section \<open>Example data\<close>

text \<open>
  A position on the equator at longitude 0, and zones centred on the equator at longitude
  \<open>x\<close> degrees: one hundred-thousandth of a degree is about 1.1 m away, one degree about
  111 km.
\<close>

definition origin :: coords where
  "origin = \<lparr>latitude = 0, longitude = 0\<rparr>"

definition zoneAt :: "int \<Rightarrow> real \<Rightarrow> real option \<Rightarrow> zone" where
  "zoneAt i x r =
     \<lparr>id = i, name = ''z'', center = \<lparr>lat = 0, lng = x\<rparr>, radius_m = r,
      playlist = Some [''/Music/a.mp3'']\<rparr>"

definition player :: audio where
  "player = \<lparr>src = [], muted = False, currentTime = 0, paused = True, playCalls = 0\<rparr>"

text \<open>A mounted component standing at the centre of its only zone.\<close>

definition inZone :: "storage \<Rightarrow> bool \<Rightarrow> app" where
  "inZone st primed =
     (mount st (Some player))
       \<lparr>zones := JsArray [zoneAt 3 0 None], coords := Some origin, audioPrimed := primed\<rparr>"

definition firstRender :: app where
  "firstRender = mount (Some Map.empty) (Some player)"

text \<open>
  The render after the user walked into the zone, still locked: the zone is set, its first
  track is the element's source, and the listener of the first render is installed.
\<close>

definition entered :: app where
  "entered =
     (onAudio (\<lambda>a. a\<lparr>src := ''/Music/a.mp3''\<rparr>)
        ((inZone (Some Map.empty) False)\<lparr>zone := Some (zoneAt 3 0 None)\<rparr>))
     \<lparr>gestureListener := Some \<lparr>capturedPriming = False, capturedZone = None\<rparr>\<rparr>"

section \<open>Distances\<close>

lemma distance_same_point: "distanceMeters la lo la lo = Some 0"
  by (simp add: distanceMeters_def toRad_def math_sqrt_def math_atan2_def)

text \<open>
  Along the equator the haversine formula gives the arc length: with \<open>t\<close> half the
  difference of longitude in radians, \<open>a = sin\<^sup>2 t\<close>, and the angle of
  \<open>(cos t, sin t)\<close> is \<open>t\<close>.
\<close>

lemma distance_along_equator:
  assumes "0 \<le> x" "x < 180"
  shows "distanceMeters 0 0 0 x = Some (6371000 * (x * pi / 180))"
proof -
  define t where "t = x * pi / 360"
  have t0: "0 \<le> t" using assms by (simp add: t_def)
  have t1: "t < pi / 2" using assms by (simp add: t_def)
  have st: "0 \<le> sin t" using t0 t1 by (intro sin_ge_zero) (use pi_gt_zero in linarith)+
  have ct: "0 < cos t" using t0 t1 by (intro cos_gt_zero_pi) (use pi_gt_zero in linarith)+
  have a: "1 - (sin t)\<^sup>2 = (cos t)\<^sup>2" by (simp add: cos_squared_eq)
  have sa: "sqrt ((sin t)\<^sup>2) = sin t" using st by simp
  have sb: "sqrt ((cos t)\<^sup>2) = cos t" using ct by simp
  have at: "arctan (sin t / cos t) = t"
    using arctan_tan [of t] t0 t1 pi_gt_zero by (simp add: tan_def)
  have half: "toRad (x - 0) / 2 = t" by (simp add: toRad_def t_def)
  have "distanceMeters 0 0 0 x = Some (6371000 * 2 * t)"
    unfolding distanceMeters_def Let_def half
    using st ct by (simp add: toRad_def math_sqrt_def math_atan2_def a sa sb at)
  then show ?thesis by (simp add: t_def)
qed

lemma near_distance:
  "distanceMeters 0 0 0 (1 / 100000) = Some (6371000 * (1 / 100000 * pi / 180))"
  by (rule distance_along_equator) simp_all

lemma near_pos: "0 < 6371000 * (1 / 100000 * pi / 180)"
  using pi_gt_zero by simp

lemma near_le_50: "6371000 * (1 / 100000 * pi / 180) \<le> (50::real)"
  using pi_less_4 by simp





lemma matches_center: "zone_matches origin (zoneAt i 0 None)"
  by (simp add: zone_matches_def origin_def zoneAt_def distance_same_point radius_or_default_def)

section \<open>Properties of the resolver\<close>

lemma scanZones_find: "scanZones zs c = find (zone_matches c) zs"
  by (induction zs) simp_all

text \<open>The loop's result, spelled out by position in the list.\<close>

lemma findZone_Some_iff:
  "findZone (JsArray zs) (Some c) = Inr (Some z) \<longleftrightarrow>
     (\<exists>i<length zs. zs ! i = z \<and> zone_matches c z \<and> (\<forall>j<i. \<not> zone_matches c (zs ! j)))"
  by (auto simp: scanZones_find find_Some_iff)

lemma findZone_None_iff:
  "findZone (JsArray zs) (Some c) = Inr None \<longleftrightarrow> (\<forall>z\<in>set zs. \<not> zone_matches c z)"
  by (auto simp: scanZones_find find_None_iff)





text \<open>
  Claim C7: \<open>findZone\<close> returns none for every coordinate when the zone list is empty, and
  for every value of \<^verbatim>\<open>zones\<close> when the coordinate is absent.
\<close>

theorem c7_degenerate:
  "findZone (JsArray []) (Some c) = Inr None \<and> findZone zs None = Inr None"
  by simp

theorem c7_witness:
  "findZone (JsArray []) (Some origin) = Inr None
   \<and> findZone (JsArray [zoneAt 3 0 None]) None = Inr None"
  using c7_degenerate [of origin "JsArray [zoneAt 3 0 None]"] by simp

text \<open>
  Claim C9: a zone whose \<open>radius_m\<close> is present and equal to 0 gets the 50 m default, so
  a coordinate within 50 m of its centre matches it.
\<close>

theorem c9_zero_radius_defaults:
  assumes "radius_m z = Some 0"
    and "distanceMeters (latitude c) (longitude c) (lat (center z)) (lng (center z)) = Some d"
    and "d \<le> 50"
  shows "radius_or_default z = 50 \<and> zone_matches c z
         \<and> findZone (JsArray (z # zs)) (Some c) = Inr (Some z)"
  using assms by (simp add: radius_or_default_def zone_matches_def)

theorem c9_witness:
  "radius_m (zoneAt 2 (1 / 100000) (Some 0)) = Some 0
   \<and> distanceMeters (latitude origin) (longitude origin)
        (lat (center (zoneAt 2 (1 / 100000) (Some 0))))
        (lng (center (zoneAt 2 (1 / 100000) (Some 0))))
       = Some (6371000 * (1 / 100000 * pi / 180))
   \<and> 0 < 6371000 * (1 / 100000 * pi / 180)
   \<and> 6371000 * (1 / 100000 * pi / 180) \<le> (50::real)
   \<and> findZone (JsArray [zoneAt 2 (1 / 100000) (Some 0), zoneAt 3 0 None]) (Some origin)
       = Inr (Some (zoneAt 2 (1 / 100000) (Some 0)))"
proof -
  have r: "radius_m (zoneAt 2 (1 / 100000) (Some 0)) = Some 0" by (simp add: zoneAt_def)
  have d: "distanceMeters (latitude origin) (longitude origin)
        (lat (center (zoneAt 2 (1 / 100000) (Some 0))))
        (lng (center (zoneAt 2 (1 / 100000) (Some 0))))
       = Some (6371000 * (1 / 100000 * pi / 180))"
    by (simp add: zoneAt_def origin_def near_distance)
  from c9_zero_radius_defaults [OF r d near_le_50, of "[zoneAt 3 0 None]"] r d near_pos near_le_50
  show ?thesis by simp
qed

section \<open>Loading the zones\<close>

text \<open>
  A rejected fetch and a body that does not parse are logged and leave \<^verbatim>\<open>zones\<close> as it
  was, the empty array of the first render.
\<close>

lemma loadZones_failure_keeps_zones:
  "zones (loadZones NetworkFailure s) = zones s
   \<and> zones (loadZones (Response st None) s) = zones s
   \<and> console (loadZones NetworkFailure s) = console s @ [''Failed to load zones:'']
   \<and> console (loadZones (Response st None) s) = console s @ [''Failed to load zones:'']"
  by (simp add: loadZones_def logLine_def)

text \<open>
  Claim C2 says that a non-success response leaves the client with zero zones, the failure
  logged, and no crash. The code does otherwise when the backend cannot read its file: the
  response has status 500 and the body \<^verbatim>\<open>{"error": "Could not read zones"}\<close>, which parses,
  so the object is stored as \<^verbatim>\<open>zones\<close> and nothing is logged. With a coordinate present
  the loop of \<open>findZone\<close> then throws inside the zone effect, and the debug panel throws in
  the render.
\<close>

theorem c2_error_body_stored_as_zones:
  "zones (loadZones (fetch_of (zones_route None)) s)
     = JsObject [(''error'', ''Could not read zones'')]
   \<and> console (loadZones (fetch_of (zones_route None)) s) = console s
   \<and> findZone (zones (loadZones (fetch_of (zones_route None)) s)) (Some c) = Inl TypeError
   \<and> zoneEffect r (loadZones (fetch_of (zones_route None)) (s\<lparr>coords := Some c\<rparr>))
       = Inl TypeError
   \<and> zonesDebug (zones (loadZones (fetch_of (zones_route None)) s)) = Inl TypeError"
  by (simp add: loadZones_def fetch_of_def zones_route_def zoneEffect_def zonesDebug_def)

section \<open>Automatic playback\<close>

lemma onAudio_absent: "audioRef s = None \<Longrightarrow> onAudio f s = s"
  by (cases s) (simp add: onAudio_def)

lemma onAudio_fields [simp]:
  "zone (onAudio f s) = zone s"
  "audioPrimed (onAudio f s) = audioPrimed s"
  "localStorage (onAudio f s) = localStorage s"
  "audioRef (onAudio f s) = map_option f (audioRef s)"
  "primingInProgress (onAudio f s) = primingInProgress s"
  "inflight (onAudio f s) = inflight s"
  "gestureListener (onAudio f s) = gestureListener s"
  "console (onAudio f s) = console s"
  by (simp_all add: onAudio_def)

lemma logLine_fields [simp]:
  "audioRef (logLine m s) = audioRef s"
  "localStorage (logLine m s) = localStorage s"
  "audioPrimed (logLine m s) = audioPrimed s"
  "primingInProgress (logLine m s) = primingInProgress s"
  "inflight (logLine m s) = inflight s"
  "zone (logLine m s) = zone s"
  "gestureListener (logLine m s) = gestureListener s"
  by (simp_all add: logLine_def)

lemma findZone_inZone:
  "findZone (zones (inZone st p)) (coords (inZone st p)) = Inr (Some (zoneAt 3 0 None))"
  using matches_center [of 3] by (simp add: inZone_def mount_def)

lemma firstTrack_zoneAt: "firstTrack (zoneAt i x r) = Some ''/Music/a.mp3''"
  by (simp add: firstTrack_def zoneAt_def)

text \<open>The effect while \<^verbatim>\<open>audioPrimed\<close> is false: it sets the zone and at most the source.\<close>

lemma zoneEffect_locked:
  assumes "\<not> audioPrimed s"
  shows "zoneEffect r s =
     (case findZone (zones s) (coords s) of
        Inl e \<Rightarrow> Inl e
      | Inr None \<Rightarrow> Inr (s\<lparr>zone := None\<rparr>)
      | Inr (Some zz) \<Rightarrow>
          (case firstTrack zz of
             None \<Rightarrow> Inr (s\<lparr>zone := Some zz\<rparr>)
           | Some t \<Rightarrow> Inr (onAudio (\<lambda>a. a\<lparr>src := t\<rparr>) (s\<lparr>zone := Some zz\<rparr>))))"
  using assms
  by (simp add: zoneEffect_def Let_def onAudio_absent split: sum.splits option.splits)

text \<open>The effect when the automatic \<^verbatim>\<open>play()\<close> is rejected.\<close>

lemma zoneEffect_autoplay_rejected:
  assumes "audioPrimed s" "findZone (zones s) (coords s) = Inr (Some z)"
    "firstTrack z = Some t" "audioRef s \<noteq> None"
  shows "zoneEffect Rejected s =
     Inr ((logLine ''Auto-play attempt failed after priming:''
            (onAudio (audio_play Rejected)
               (onAudio (\<lambda>a. a\<lparr>src := t\<rparr>) (s\<lparr>zone := Some z\<rparr>))))
          \<lparr>localStorage := clearPrimed (localStorage s), audioPrimed := False\<rparr>)"
  using assms by (auto simp: zoneEffect_def Let_def)

text \<open>
  Claim C6: while \<^verbatim>\<open>audioPrimed\<close> is false, a run of the zone effect never calls
  \<^verbatim>\<open>play()\<close> on the audio element. It leaves the mute state, the position and the
  paused status alone; the source is either unchanged or the first track of the zone just
  entered; the state stays locked and storage is not written.
\<close>

theorem c6_locked_never_plays:
  assumes "\<not> audioPrimed s" and "zoneEffect r s = Inr s'"
  shows "map_option playCalls (audioRef s') = map_option playCalls (audioRef s)
       \<and> map_option muted (audioRef s') = map_option muted (audioRef s)
       \<and> map_option paused (audioRef s') = map_option paused (audioRef s)
       \<and> map_option currentTime (audioRef s') = map_option currentTime (audioRef s)
       \<and> (map_option src (audioRef s') = map_option src (audioRef s)
          \<or> (\<exists>z. zone s' = Some z \<and> firstTrack z = map_option src (audioRef s')))
       \<and> \<not> audioPrimed s' \<and> localStorage s' = localStorage s"
proof (cases "findZone (zones s) (coords s)")
  case (Inl e)
  with assms show ?thesis by (simp add: zoneEffect_locked)
next
  case (Inr z)
  show ?thesis
  proof (cases z)
    case None
    with Inr assms show ?thesis by (auto simp: zoneEffect_locked)
  next
    case (Some zz)
    show ?thesis
    proof (cases "firstTrack zz")
      case None
      with Inr Some assms show ?thesis by (auto simp: zoneEffect_locked)
    next
      case (Some t)
      with Inr \<open>z = Some zz\<close> assms
      have s': "s' = onAudio (\<lambda>a. a\<lparr>src := t\<rparr>) (s\<lparr>zone := Some zz\<rparr>)"
        by (simp add: zoneEffect_locked)
      show ?thesis
      proof (cases "audioRef s")
        case None
        then show ?thesis using assms(1) by (simp add: s')
      next
        case (Some a)
        then show ?thesis using assms(1) \<open>firstTrack zz = Some t\<close>
          by (simp add: s' option.map_comp comp_def)
      qed
    qed
  qed
qed

theorem c6_witness:
  "\<not> audioPrimed (inZone None False)
   \<and> zoneEffect Resolved (inZone None False)
       = Inr (onAudio (\<lambda>a. a\<lparr>src := ''/Music/a.mp3''\<rparr>)
               ((inZone None False)\<lparr>zone := Some (zoneAt 3 0 None)\<rparr>))
   \<and> map_option playCalls
        (audioRef (onAudio (\<lambda>a. a\<lparr>src := ''/Music/a.mp3''\<rparr>)
                    ((inZone None False)\<lparr>zone := Some (zoneAt 3 0 None)\<rparr>))) = Some 0"
proof -
  have l: "\<not> audioPrimed (inZone None False)" by (simp add: inZone_def)
  have e: "zoneEffect Resolved (inZone None False)
       = Inr (onAudio (\<lambda>a. a\<lparr>src := ''/Music/a.mp3''\<rparr>)
               ((inZone None False)\<lparr>zone := Some (zoneAt 3 0 None)\<rparr>))"
    by (simp add: zoneEffect_locked [OF l] findZone_inZone firstTrack_zoneAt)
  from c6_locked_never_plays [OF l e] l e show ?thesis
    by (simp add: inZone_def mount_def player_def)
qed

text \<open>
  Claim C8: when the zone effect finds no active zone, or the audio element is not
  available, it only stores the resolved zone: the audio element (source, mute state,
  position, paused status, calls of \<^verbatim>\<open>play()\<close>) is what it was, so playback that was
  running keeps running.
\<close>

theorem c8_no_zone_no_playback_action:
  assumes "findZone (zones s) (coords s) = Inr z"
    and "z = None \<or> audioRef s = None"
  shows "zoneEffect r s = Inr (s\<lparr>zone := z\<rparr>) \<and> audioRef (s\<lparr>zone := z\<rparr>) = audioRef s"
  using assms by (auto simp: zoneEffect_def Let_def split: option.splits)

theorem c8_witness:
  "findZone (zones (mount None (Some player))) (coords (mount None (Some player))) = Inr None
   \<and> zoneEffect Resolved (mount None (Some player))
       = Inr ((mount None (Some player))\<lparr>zone := None\<rparr>)
   \<and> findZone (zones ((inZone None True)\<lparr>audioRef := None\<rparr>))
        (coords ((inZone None True)\<lparr>audioRef := None\<rparr>))
       = Inr (Some (zoneAt 3 0 None))
   \<and> zoneEffect Resolved ((inZone None True)\<lparr>audioRef := None\<rparr>)
       = Inr ((inZone None True)\<lparr>audioRef := None, zone := Some (zoneAt 3 0 None)\<rparr>)"
proof -
  have f1: "findZone (zones (mount None (Some player))) (coords (mount None (Some player)))
              = Inr None"
    by (simp add: mount_def)
  have f2: "findZone (zones ((inZone None True)\<lparr>audioRef := None\<rparr>))
              (coords ((inZone None True)\<lparr>audioRef := None\<rparr>))
            = Inr (Some (zoneAt 3 0 None))"
    using findZone_inZone [of None True] by (simp add: inZone_def)
  have a2: "Some (zoneAt 3 0 None) = None
            \<or> audioRef ((inZone None True)\<lparr>audioRef := None\<rparr>) = None"
    by simp
  from c8_no_zone_no_playback_action [OF f1, of Resolved]
    c8_no_zone_no_playback_action [OF f2 a2, of Resolved] f1 f2
  show ?thesis by simp
qed

section \<open>The unlock procedure and the persisted flag\<close>

lemma primeAudio_returns:
  "snd (primeAudio z r1 r2 s) = (audioRef s \<noteq> None \<and> r1 = Resolved)"
  by (simp add: primeAudio_def Let_def split: play_result.splits)

lemma primeAudio_storage: "localStorage (fst (primeAudio z r1 r2 s)) = localStorage s"
  by (simp add: primeAudio_def Let_def split: play_result.splits)


lemma handleUserEnable_unfold:
  "\<not> capturedPriming c \<Longrightarrow>
   handleUserEnable c r1 r2 s =
     finishEnable (snd (primeAudio (capturedZone c) r1 r2 (s\<lparr>primingInProgress := True\<rparr>)))
       (fst (primeAudio (capturedZone c) r1 r2 (s\<lparr>primingInProgress := True\<rparr>)))"
  by (simp add: handleUserEnable_def Let_def split: prod.splits)

lemma handleUserEnable_outcome:
  "\<not> capturedPriming c \<Longrightarrow>
   audioPrimed (handleUserEnable c r1 r2 s) = (audioRef s \<noteq> None \<and> r1 = Resolved)
   \<and> localStorage (handleUserEnable c r1 r2 s) =
       (if audioRef s \<noteq> None \<and> r1 = Resolved then persistPrimed (localStorage s)
        else localStorage s)
   \<and> \<not> primingInProgress (handleUserEnable c r1 r2 s)"
  by (simp add: handleUserEnable_unfold finishEnable_def Let_def primeAudio_returns
      primeAudio_storage)

text \<open>The write reaches storage exactly when storage is available.\<close>

lemma readPrimed_persist: "readPrimed (persistPrimed st) = (st \<noteq> None)"
  by (cases st) (simp_all add: readPrimed_def persistPrimed_def setItem_def getItem_def)

lemma readPrimed_clear: "\<not> readPrimed (clearPrimed st)"
  by (cases st) (simp_all add: readPrimed_def clearPrimed_def removeItem_def getItem_def)

lemma closureOf_mount [simp]: "\<not> capturedPriming (closureOf (mount st el))"
  by (simp add: closureOf_def mount_def)

lemma closureOf_inZone [simp]: "\<not> capturedPriming (closureOf (inZone st p))"
  by (simp add: closureOf_def inZone_def mount_def)

text \<open>
  Claim C4 as it is stated fails when the browser denies storage: the unlock succeeds and
  the state is unlocked, but \<^verbatim>\<open>setItem\<close> throws, the exception is swallowed, and no flag is
  persisted.
\<close>

theorem c4_counterexample:
  "audioPrimed
     (handleUserEnable (closureOf (mount None (Some player))) Resolved Resolved
        (mount None (Some player)))
   \<and> \<not> readPrimed
         (localStorage
            (handleUserEnable (closureOf (mount None (Some player))) Resolved Resolved
               (mount None (Some player))))"
  by (simp add: handleUserEnable_outcome readPrimed_persist) (simp add: mount_def)

text \<open>
  Claim C4, amended: after a successful unlock (the handler passed its guard and the muted
  play resolved on the audio element) the state is unlocked and the flag has been written
  under the key \<^verbatim>\<open>audioPrimed\<close> on a best-effort basis: it is set exactly when storage is
  available. Whenever the automatic play of the zone effect is rejected while the state is
  unlocked, the persisted flag is cleared and the state is locked again.
\<close>

theorem c4_unlock_persists_autoplay_failure_relocks:
  "(\<not> capturedPriming c \<and> audioRef s \<noteq> None \<longrightarrow>
      audioPrimed (handleUserEnable c Resolved r2 s)
      \<and> localStorage (handleUserEnable c Resolved r2 s) = persistPrimed (localStorage s)
      \<and> readPrimed (localStorage (handleUserEnable c Resolved r2 s))
          = (localStorage s \<noteq> None))
   \<and> (audioPrimed s \<and> findZone (zones s) (coords s) = Inr (Some z) \<and> firstTrack z \<noteq> None
        \<and> audioRef s \<noteq> None \<longrightarrow>
      (\<exists>s'. zoneEffect Rejected s = Inr s' \<and> \<not> audioPrimed s'
            \<and> \<not> readPrimed (localStorage s')
            \<and> localStorage s' = clearPrimed (localStorage s)))"
proof (intro conjI impI)
  assume "\<not> capturedPriming c \<and> audioRef s \<noteq> None"
  then show "audioPrimed (handleUserEnable c Resolved r2 s)"
    and "localStorage (handleUserEnable c Resolved r2 s) = persistPrimed (localStorage s)"
    and "readPrimed (localStorage (handleUserEnable c Resolved r2 s))
          = (localStorage s \<noteq> None)"
    by (simp_all add: handleUserEnable_outcome readPrimed_persist)
next
  assume a: "audioPrimed s \<and> findZone (zones s) (coords s) = Inr (Some z)
        \<and> firstTrack z \<noteq> None \<and> audioRef s \<noteq> None"
  then obtain t where "firstTrack z = Some t" by auto
  with a show "\<exists>s'. zoneEffect Rejected s = Inr s' \<and> \<not> audioPrimed s'
            \<and> \<not> readPrimed (localStorage s')
            \<and> localStorage s' = clearPrimed (localStorage s)"
    by (simp add: zoneEffect_autoplay_rejected readPrimed_clear)
qed

theorem c4_witness:
  "\<not> capturedPriming (closureOf (inZone (Some Map.empty) False))
   \<and> audioRef (inZone (Some Map.empty) False) \<noteq> None
   \<and> audioPrimed
       (handleUserEnable (closureOf (inZone (Some Map.empty) False)) Resolved Resolved
          (inZone (Some Map.empty) False))
   \<and> readPrimed
       (localStorage
          (handleUserEnable (closureOf (inZone (Some Map.empty) False)) Resolved Resolved
             (inZone (Some Map.empty) False)))
   \<and> audioPrimed (inZone (Some [''audioPrimed'' \<mapsto> ''1'']) True)
   \<and> readPrimed (localStorage (inZone (Some [''audioPrimed'' \<mapsto> ''1'']) True))
   \<and> findZone (zones (inZone (Some [''audioPrimed'' \<mapsto> ''1'']) True))
        (coords (inZone (Some [''audioPrimed'' \<mapsto> ''1'']) True))
       = Inr (Some (zoneAt 3 0 None))
   \<and> (\<exists>s'. zoneEffect Rejected (inZone (Some [''audioPrimed'' \<mapsto> ''1'']) True) = Inr s'
          \<and> \<not> audioPrimed s' \<and> \<not> readPrimed (localStorage s'))"
proof -
  have a: "audioRef (inZone st p) \<noteq> None" for st p by (simp add: inZone_def mount_def)
  have p: "audioPrimed (inZone st True)" for st by (simp add: inZone_def)
  have r: "readPrimed (localStorage (inZone (Some [''audioPrimed'' \<mapsto> ''1'']) True))"
    by (simp add: inZone_def mount_def readPrimed_def getItem_def)
  have st: "localStorage (inZone (Some Map.empty) False) \<noteq> None"
    by (simp add: inZone_def mount_def)
  have t: "firstTrack (zoneAt 3 0 None) \<noteq> None" by (simp add: firstTrack_zoneAt)
  have pre1: "\<not> capturedPriming (closureOf (inZone (Some Map.empty) False))
      \<and> audioRef (inZone (Some Map.empty) False) \<noteq> None"
    using a by simp
  from c4_unlock_persists_autoplay_failure_relocks
         [where s = "inZone (Some Map.empty) False" and ?r2.0 = Resolved
            and c = "closureOf (inZone (Some Map.empty) False)",
          THEN conjunct1, rule_format, OF pre1] st
  have 1: "audioPrimed
       (handleUserEnable (closureOf (inZone (Some Map.empty) False)) Resolved Resolved
          (inZone (Some Map.empty) False))
   \<and> readPrimed
       (localStorage
          (handleUserEnable (closureOf (inZone (Some Map.empty) False)) Resolved Resolved
             (inZone (Some Map.empty) False)))"
    by (simp add: readPrimed_persist)
  have pre: "audioPrimed (inZone (Some [''audioPrimed'' \<mapsto> ''1'']) True)
      \<and> findZone (zones (inZone (Some [''audioPrimed'' \<mapsto> ''1'']) True))
           (coords (inZone (Some [''audioPrimed'' \<mapsto> ''1'']) True))
          = Inr (Some (zoneAt 3 0 None))
      \<and> firstTrack (zoneAt 3 0 None) \<noteq> None
      \<and> audioRef (inZone (Some [''audioPrimed'' \<mapsto> ''1'']) True) \<noteq> None"
    using a p t findZone_inZone by blast
  from c4_unlock_persists_autoplay_failure_relocks
         [where s = "inZone (Some [''audioPrimed'' \<mapsto> ''1'']) True" and z = "zoneAt 3 0 None",
          THEN conjunct2, rule_format, OF pre]
  have 2: "\<exists>s'. zoneEffect Rejected (inZone (Some [''audioPrimed'' \<mapsto> ''1'']) True) = Inr s'
          \<and> \<not> audioPrimed s' \<and> \<not> readPrimed (localStorage s')"
    by blast
  from 1 2 pre1 p r findZone_inZone show ?thesis by simp
qed






section \<open>Re-entrancy of the unlock procedure\<close>

text \<open>
  Run without interruption, the suspended form of the procedure is \<open>handleUserEnable\<close>.
\<close>

lemma phases_agree_rejected:
  assumes "audioRef s \<noteq> None" "inflight s = []" "\<not> capturedPriming c"
  shows "settlePlay Rejected (beginEnable c s) = handleUserEnable c Rejected r2 s"
proof -
  obtain a where a: "audioRef s = Some a" using assms(1) by auto
  show ?thesis using a assms(2,3)
    by (cases s)
       (simp add: settlePlay_def beginEnable_def handleUserEnable_def primeAudio_def Let_def
         onAudio_def logLine_def finishEnable_def audio_play_def)
qed

lemma phases_agree_resolved:
  assumes "audioRef s \<noteq> None" "inflight s = []" "\<not> capturedPriming c"
  shows "settlePlay r2 (settlePlay Resolved (beginEnable c s))
         = handleUserEnable c Resolved r2 s"
proof -
  obtain a where a: "audioRef s = Some a" using assms(1) by auto
  show ?thesis using a assms(2,3)
    by (cases s; cases r2)
       (simp_all add: settlePlay_def beginEnable_def handleUserEnable_def primeAudio_def Let_def
         onAudio_def logLine_def finishEnable_def audio_play_def)
qed

text \<open>
  The guard \<^verbatim>\<open>if (primingInProgress) return\<close> is decided by the value the invoked closure
  captured. A closure of a render made after the flag was set returns at once; a closure
  of an earlier render starts \<open>primeAudio\<close>, whatever is in flight.
\<close>

lemma beginEnable_captured_true: "capturedPriming c \<Longrightarrow> beginEnable c s = s"
  by (simp add: beginEnable_def)

lemma beginEnable_captured_false:
  assumes "\<not> capturedPriming c" "audioRef s = Some a"
  shows "inflight (beginEnable c s) = inflight s @ [AwaitMutedPlay]
       \<and> map_option playCalls (audioRef (beginEnable c s)) = Some (Suc (playCalls a))
       \<and> map_option muted (audioRef (beginEnable c s)) = Some True"
  using assms
  by (simp add: beginEnable_def Let_def primeSetup_def audio_play_call_def)

subsection \<open>With every effect run before the next event\<close>

lemma finishEnable_fields [simp]:
  "inflight (finishEnable ok s) = inflight s"
  "\<not> primingInProgress (finishEnable ok s)"
  "gestureListener (finishEnable ok s) = gestureListener s"
  by (simp_all add: finishEnable_def Let_def)

lemma oneAttempt_idle: "inflight s = [] \<Longrightarrow> oneAttempt s"
  by (simp add: oneAttempt_def)

lemma oneAttempt_started: "oneAttempt (started st el)"
  by (simp add: oneAttempt_def started_def gestureEffect_def mount_def)

lemma oneAttempt_beginEnable:
  assumes "oneAttempt s" "gestureListener s = None" "capturedPriming c \<or> inflight s = []"
  shows "oneAttempt (beginEnable c s) \<and> gestureListener (beginEnable c s) = None"
  using assms by (auto simp: oneAttempt_def beginEnable_def Let_def)

lemma oneAttempt_unlisten:
  "oneAttempt s \<Longrightarrow> oneAttempt (s\<lparr>gestureListener := None\<rparr>)"
  by (auto simp: oneAttempt_def)

lemma oneAttempt_onGesture:
  assumes "oneAttempt s"
  shows "oneAttempt (onGesture s)"
proof (cases "gestureListener s")
  case None
  with assms show ?thesis by (simp add: onGesture_def)
next
  case (Some c)
  have "capturedPriming c \<or> inflight (s\<lparr>gestureListener := None\<rparr>) = []"
    using assms Some by (auto simp: oneAttempt_def)
  with oneAttempt_beginEnable [OF oneAttempt_unlisten [OF assms], of c] Some
  show ?thesis by (simp add: onGesture_def)
qed

lemma onGesture_unlistens: "gestureListener (onGesture s) = None"
  by (simp add: onGesture_def beginEnable_def Let_def split: option.splits)

lemma oneAttempt_onButtonClick:
  assumes "oneAttempt s" "gestureListener s = None"
  shows "oneAttempt (onButtonClick s s)"
proof (cases "audioPrimed s \<or> primingInProgress s")
  case True
  with assms show ?thesis by (simp add: onButtonClick_def)
next
  case False
  then have idle: "inflight s = []" using assms by (auto simp: oneAttempt_def)
  then show ?thesis using False assms(2)
    by (auto simp: onButtonClick_def beginEnable_def closureOf_def Let_def oneAttempt_def)
qed

lemma oneAttempt_settlePlay: "oneAttempt s \<Longrightarrow> oneAttempt (settlePlay r s)"
  by (auto simp: oneAttempt_def settlePlay_def split: list.splits phase.splits play_result.splits)

lemma zoneEffect_keeps:
  assumes "zoneEffect r s = Inr s'"
  shows "inflight s' = inflight s \<and> primingInProgress s' = primingInProgress s
       \<and> gestureListener s' = gestureListener s"
  using assms
  by (auto simp: zoneEffect_def Let_def logLine_def split: sum.splits option.splits if_splits
      play_result.splits)

lemma oneAttempt_zoneEffect: "oneAttempt s \<Longrightarrow> zoneEffect r s = Inr s' \<Longrightarrow> oneAttempt s'"
  using zoneEffect_keeps [of r s s'] by (simp add: oneAttempt_def)

lemma oneAttempt_loadZones: "oneAttempt s \<Longrightarrow> oneAttempt (loadZones f s)"
  by (auto simp: oneAttempt_def loadZones_def logLine_def split: fetch_result.splits option.splits)

lemma oneAttempt_renewListener: "oneAttempt s \<Longrightarrow> oneAttempt (renewListener b s)"
  by (auto simp: oneAttempt_def renewListener_def gestureEffect_def closureOf_def)

lemma oneAttempt_step:
  assumes "oneAttempt s" "step e s = Inr s'"
  shows "oneAttempt s'"
proof -
  from assms(2) obtain s1 where h: "handle e s = Inr s1" and s': "s' = renewListener s s1"
    by (auto simp: step_def split: sum.splits)
  have "oneAttempt s1"
  proof (cases e)
    case Tap
    with h assms(1) show ?thesis by (auto simp: handle_def oneAttempt_onGesture)
  next
    case ButtonClick
    with h assms(1) show ?thesis
      by (auto simp: handle_def oneAttempt_onGesture oneAttempt_onButtonClick onGesture_unlistens)
  next
    case (PlaySettled r)
    with h assms(1) show ?thesis by (auto simp: handle_def oneAttempt_settlePlay)
  next
    case (ZoneEffectRun r)
    with h assms(1) show ?thesis by (auto simp: handle_def oneAttempt_zoneEffect)
  next
    case (PositionFix c)
    with h assms(1) show ?thesis by (auto simp: handle_def oneAttempt_def)
  next
    case (ZonesFetched f)
    with h assms(1) show ?thesis by (auto simp: handle_def oneAttempt_loadZones)
  qed
  then show ?thesis by (simp add: s' oneAttempt_renewListener)
qed

lemma oneAttempt_run: "oneAttempt s \<Longrightarrow> run es s = Inr s' \<Longrightarrow> oneAttempt s'"
proof (induction es arbitrary: s)
  case Nil
  then show ?case by simp
next
  case (Cons e es)
  then show ?case by (auto split: sum.splits dest: oneAttempt_step)
qed

text \<open>
  On that schedule at most one attempt is in flight, and while one is pending neither a
  gesture nor a click on the button starts another.
\<close>

lemma prompt_effects_one_attempt:
  assumes "run es (started st el) = Inr s"
  shows "length (inflight s) \<le> 1"
    and "inflight s \<noteq> [] \<Longrightarrow> inflight (onGesture s) = inflight s"
    and "inflight s \<noteq> [] \<Longrightarrow> inflight (onButtonClick (onGesture s) (onGesture s)) = inflight s"
proof -
  have inv: "oneAttempt s" using oneAttempt_run [OF oneAttempt_started assms] .
  then show "length (inflight s) \<le> 1" by (simp add: oneAttempt_def)
  assume busy: "inflight s \<noteq> []"
  with inv show g: "inflight (onGesture s) = inflight s"
    by (auto simp: oneAttempt_def onGesture_def beginEnable_def split: option.splits)
  from inv busy have "primingInProgress (onGesture s)"
    by (auto simp: oneAttempt_def onGesture_def beginEnable_def split: option.splits)
  then show "inflight (onButtonClick (onGesture s) (onGesture s)) = inflight s"
    using g by (simp add: onButtonClick_def)
qed

subsection \<open>With a listener effect that runs late\<close>

lemma onGesture_renewed_listener:
  "gestureListener s = Some c \<Longrightarrow> capturedPriming c \<Longrightarrow>
   onGesture s = s\<lparr>gestureListener := None\<rparr>"
  by (simp add: onGesture_def beginEnable_def)

lemma onButtonClick_while_priming:
  "primingInProgress rendered \<Longrightarrow> onButtonClick rendered s = s"
  by (simp add: onButtonClick_def)

lemma zoneEffect_enters:
  "zoneEffect Resolved
     ((started (Some Map.empty) (Some player))
        \<lparr>zones := JsArray [zoneAt 3 0 None], coords := Some origin\<rparr>)
   = Inr entered"
proof -
  have l: "\<not> audioPrimed ((started (Some Map.empty) (Some player))
        \<lparr>zones := JsArray [zoneAt 3 0 None], coords := Some origin\<rparr>)"
    by (simp add: started_def gestureEffect_def mount_def readPrimed_def getItem_def)
  show ?thesis
    using matches_center [of 3]
    by (simp add: zoneEffect_locked [OF l] firstTrack_zoneAt)
       (simp add: entered_def inZone_def started_def gestureEffect_def mount_def closureOf_def
          readPrimed_def getItem_def onAudio_def)
qed

text \<open>
  Claim C3 says that a second invocation of \<open>handleUserEnable\<close> while an attempt is pending
  never starts a second attempt. The code does otherwise when the invoked closure is older
  than the pending attempt. The listener effect depends on \<^verbatim>\<open>[audioPrimed, zone]\<close> only, so
  the listener it installs keeps the \<^verbatim>\<open>primingInProgress\<close> of its render. Here the user
  has walked into a zone; the render that shows the zone is on screen and its listener
  effect has not run yet. A first gesture reaches the listener of the first render and
  starts an attempt. The pending effect of the zone's render then installs its listener,
  which captured \<^verbatim>\<open>primingInProgress = false\<close>, and the render that shows the flag does not
  renew it. A second gesture, while the muted play is still pending, reaches that listener
  and starts a second attempt: two invocations are suspended and \<^verbatim>\<open>play()\<close> was called
  twice.
\<close>

theorem c3_stale_listener_starts_second_attempt:
  "inflight (onGesture entered) = [AwaitMutedPlay]
   \<and> primingInProgress (onGesture entered)
   \<and> gestureListener (onGesture entered) = None
   \<and> gestureListener (gestureEffect entered (onGesture entered))
       = Some \<lparr>capturedPriming = False, capturedZone = Some (zoneAt 3 0 None)\<rparr>
   \<and> inflight (onGesture (gestureEffect entered (onGesture entered)))
       = [AwaitMutedPlay, AwaitMutedPlay]
   \<and> map_option playCalls (audioRef (onGesture (gestureEffect entered (onGesture entered))))
       = Some 2"
  by (simp add: entered_def inZone_def mount_def gestureEffect_def onGesture_def beginEnable_def
      Let_def primeSetup_def audio_play_call_def player_def primeTrack_def onAudio_def
      firstTrack_zoneAt closureOf_def)

end
